theory Spec2Isabelle
  imports Complex_Main "HOL-Library.Log_Nat"
begin

section \<open>Effects shared by the page handlers\<close>

text \<open>
  The dashboard's handlers mutate page state and, besides, show toast notifications
  (\<^verbatim>\<open>ElMessage.success/warning/error\<close>), issue HTTP requests (\<^verbatim>\<open>axios\<close>,
  \<^verbatim>\<open>fetch\<close>), arm timers (\<^verbatim>\<open>setTimeout\<close>) and navigate (\<^verbatim>\<open>router.push\<close>).
  A handler is modelled as a function from the state (and the answers of the
  environment it awaits) to the new state and the effects it caused, in order.
  The source's message texts are Chinese; they are rendered in English here.
\<close>

datatype level = Success | Warning | Error

datatype notice = Notice level string

text \<open>
  A JavaScript number is an IEEE 754 double: a finite value, given as the
  rational it denotes (the two zeros, which \<^verbatim>\<open>===\<close> identifies, are the one
  value 0), an infinity or \<^verbatim>\<open>NaN\<close>.
\<close>

datatype jsnum = Num rat | PInf | NInf | NaN

type_synonym point = "jsnum \<times> jsnum"

datatype payload =
    NoBody
  | ZoneData string string "point list" int bool
  | StatusBody bool
  | LoginBody string string

text \<open>
  A request: its method, its URL, the id that stands for \<^verbatim>\<open>{id}\<close> in the URL (if
  the URL has one) and its body.
\<close>

datatype request = Request string string "int option" payload

text \<open>What an armed timer calls when it fires.\<close>

datatype callback = InitWebSocket | RefreshStream

record effects =
  toasts :: "notice list"
  requests :: "request list"
  timers :: "(nat \<times> callback) list"
  pushes :: "string list"

definition no_effects :: effects where
  "no_effects = \<lparr>toasts = [], requests = [], timers = [], pushes = []\<rparr>"

datatype js_error = RequestFailed | TypeError

section \<open>The event store (stores/events.js)\<close>

text \<open>
  The store holds two arrays of event objects. An object pushed by
  \<^verbatim>\<open>addRealtimeEvent\<close> is shared by both arrays, and the read actions mutate objects
  in place, so the arrays are lists of references into a heap of event objects.
  Of an event only \<^verbatim>\<open>id\<close> and \<^verbatim>\<open>is_read\<close> are read or written by the store's
  actions. \<^verbatim>\<open>unreadCount\<close> is a JavaScript number that the server's count
  initialises; it is an integer here.
\<close>

type_synonym ref = nat

record event =
  ev_id :: int
  is_read :: bool

record event_store =
  heap :: "ref \<Rightarrow> event"
  events :: "ref list"
  recentEvents :: "ref list"
  unreadCount :: int

definition set_read :: "ref \<Rightarrow> (ref \<Rightarrow> event) \<Rightarrow> (ref \<Rightarrow> event)" where
  "set_read r h = h(r := (h r)\<lparr>is_read := True\<rparr>)"

text \<open>\<^verbatim>\<open>list.find(e => e.id === eventId)\<close>: the first object with that id, if any.\<close>

definition find_event :: "(ref \<Rightarrow> event) \<Rightarrow> int \<Rightarrow> ref list \<Rightarrow> ref option" where
  "find_event h eventId xs = List.find (\<lambda>r. ev_id (h r) = eventId) xs"

text \<open>
  \<^verbatim>\<open>markEventAsRead(eventId)\<close>. The first argument is the outcome of the awaited
  \<^verbatim>\<open>PUT /events/{id}/read\<close>: when it fails the action rethrows and the state is
  untouched.
\<close>

definition markEventAsRead :: "bool \<Rightarrow> int \<Rightarrow> event_store \<Rightarrow> js_error + event_store" where
  "markEventAsRead put_ok eventId s =
     (if \<not> put_ok then Inl RequestFailed
      else
        let h1 = (case find_event (heap s) eventId (events s) of
                    None \<Rightarrow> heap s
                  | Some r \<Rightarrow> set_read r (heap s));
            h2 = (case find_event h1 eventId (recentEvents s) of
                    None \<Rightarrow> h1
                  | Some r \<Rightarrow> set_read r h1)
        in Inr (s\<lparr>heap := h2,
                   unreadCount := (if unreadCount s > 0 then unreadCount s - 1
                                   else unreadCount s)\<rparr>))"

text \<open>\<^verbatim>\<open>markAllAsRead()\<close>: both \<^verbatim>\<open>forEach\<close> loops, then the count.\<close>

definition markAllAsRead :: "bool \<Rightarrow> event_store \<Rightarrow> js_error + event_store" where
  "markAllAsRead put_ok s =
     (if \<not> put_ok then Inl RequestFailed
      else
        let h1 = fold set_read (events s) (heap s);
            h2 = fold set_read (recentEvents s) h1
        in Inr (s\<lparr>heap := h2, unreadCount := 0\<rparr>))"

text \<open>
  \<^verbatim>\<open>addRealtimeEvent(event)\<close>: the argument is a reference to the pushed object.
\<close>

definition addRealtimeEvent :: "ref \<Rightarrow> event_store \<Rightarrow> event_store" where
  "addRealtimeEvent r s =
     (let recent = r # recentEvents s;
          evs = r # events s;
          recent' = (if length recent > 50 then take 50 recent else recent)
      in s\<lparr>events := evs,
           recentEvents := recent',
           unreadCount := (if \<not> is_read (heap s r) then unreadCount s + 1
                           else unreadCount s)\<rparr>)"

text \<open>
  \<^verbatim>\<open>fetchRecentEvents()\<close>: the argument is the server's answer (the events as fresh
  objects, and the unread count), or \<open>None\<close> when the request fails; a failure is
  logged to the console only. The fresh objects are stored at the references
  the second argument gives.
\<close>

definition fetchRecentEvents ::
    "((ref \<times> event) list \<times> int) option \<Rightarrow> event_store \<Rightarrow> event_store \<times> effects" where
  "fetchRecentEvents resp s =
     (let rq = no_effects\<lparr>requests := [Request ''GET'' ''http://localhost:8000/api/events/recent'' None NoBody]\<rparr>
      in case resp of
           None \<Rightarrow> (s, rq)
         | Some (objs, unread) \<Rightarrow>
             (s\<lparr>heap := fold (\<lambda>(r, e) h. h(r := e)) objs (heap s),
                recentEvents := map fst objs,
                unreadCount := unread\<rparr>, rq))"

section \<open>The live monitor's message handler (LiveMonitor view)\<close>

text \<open>
  A parsed WebSocket frame \<^verbatim>\<open>{type, data}\<close>: \<open>data_faces\<close> is \<^verbatim>\<open>data.faces\<close> and
  \<open>data_violations\<close> is \<^verbatim>\<open>data.violations\<close> (\<open>None\<close> when undefined), \<open>data_obj\<close>
  is \<^verbatim>\<open>data\<close> itself, read as an alert.
\<close>

record face =
  is_stranger :: bool

record ws_message =
  msg_type :: string
  data_faces :: "face list option"
  data_violations :: "string list option"
  data_obj :: event

record live_monitor =
  lm_detectedFaces :: "face list"
  lm_recognizedFaces :: "face list"
  lm_strangers :: "face list"
  lm_dangerZoneViolations :: "string list"
  lm_realtimeAlerts :: "event list"
  lm_cameraStatus :: string
  lm_videoStreamUrl :: string
  lm_videoErrorRetry :: nat

definition MJPEG_API :: string where
  "MJPEG_API = ''http://localhost:8000/api/stream/mjpeg?rtmp_url=rtmp://121.41.28.35:9090/live/obs_stream''"

text \<open>
  \<^verbatim>\<open>ws.onmessage\<close> of the live monitor. In the \<^verbatim>\<open>face_detection\<close> branch
  \<^verbatim>\<open>data.data.faces.filter\<close> throws when \<^verbatim>\<open>faces\<close> is undefined, after
  \<^verbatim>\<open>detectedFaces\<close> was assigned. The redraw that the handler schedules with
  \<^verbatim>\<open>nextTick\<close> touches the canvas only.
\<close>

definition lm_onmessage :: "ws_message \<Rightarrow> live_monitor \<Rightarrow> live_monitor \<times> js_error option" where
  "lm_onmessage m s =
     (if msg_type m = ''face_detection'' then
        (case data_faces m of
           None \<Rightarrow> (s\<lparr>lm_detectedFaces := []\<rparr>, Some TypeError)
         | Some fs \<Rightarrow>
             (s\<lparr>lm_detectedFaces := fs,
                lm_recognizedFaces := filter (\<lambda>f. \<not> is_stranger f) fs,
                lm_strangers := filter is_stranger fs\<rparr>, None))
      else if msg_type m = ''zone_violation'' then
        (s\<lparr>lm_dangerZoneViolations :=
             (case data_violations m of None \<Rightarrow> [] | Some vs \<Rightarrow> vs)\<rparr>, None)
      else if msg_type m = ''realtime_alert'' \<or> msg_type m = ''event_alert'' then
        (let alerts = data_obj m # lm_realtimeAlerts s
         in (s\<lparr>lm_realtimeAlerts :=
                  (if length alerts > 10 then take 10 alerts else alerts)\<rparr>, None))
      else (s, None))"

text \<open>
  \<^verbatim>\<open>handleVideoError\<close> of the live monitor (the \<^verbatim>\<open>error\<close> event of the stream
  image) and the \<^verbatim>\<open>refreshStream\<close> its timer calls.
\<close>

definition lm_handleVideoError :: "live_monitor \<Rightarrow> live_monitor \<times> effects" where
  "lm_handleVideoError s =
     (if lm_videoErrorRetry s < 3 then
        (s\<lparr>lm_videoErrorRetry := lm_videoErrorRetry s + 1\<rparr>,
         no_effects\<lparr>timers := [(1000 * (lm_videoErrorRetry s + 1), RefreshStream)]\<rparr>)
      else
        (s, no_effects\<lparr>toasts := [Notice Error ''video stream connection failed, retry later'']\<rparr>))"

definition lm_refreshStream :: "live_monitor \<Rightarrow> live_monitor" where
  "lm_refreshStream s =
     (if lm_cameraStatus s = ''running'' then s\<lparr>lm_videoStreamUrl := MJPEG_API\<rparr> else s)"

section \<open>Canvas and image elements\<close>

text \<open>
  A canvas element: the size of its backing store (\<^verbatim>\<open>canvas.width\<close>,
  \<^verbatim>\<open>canvas.height\<close>), its box on screen (\<^verbatim>\<open>getBoundingClientRect()\<close>, which the
  style sheet decides) and the log of what was done to it. Assigning
  \<^verbatim>\<open>canvas.width\<close> clears the bitmap also when the value is the old one, so the
  assignments are logged. The overlay painters are logged as one operation each.
\<close>

datatype canvas_op =
    SetWidth nat | SetHeight nat
  | FillRect nat nat nat nat | ClearRect nat nat nat nat
  | DrawImage nat nat nat nat
  | StatusMessage string
  | DrawExistingZones | DrawCurrentDrawing | DrawFaceBoxes

record dom_rect =
  rect_left :: rat
  rect_top :: rat
  rect_width :: rat
  rect_height :: rat

record canvas =
  width :: nat
  height :: nat
  rect :: dom_rect
  ops :: "canvas_op list"

record img =
  complete :: bool
  naturalWidth :: nat
  naturalHeight :: nat


definition draw :: "canvas_op list \<Rightarrow> canvas \<Rightarrow> canvas" where
  "draw os c = c\<lparr>ops := ops c @ os\<rparr>"

definition set_width :: "nat \<Rightarrow> canvas \<Rightarrow> canvas" where
  "set_width w c = c\<lparr>width := w, ops := ops c @ [SetWidth w]\<rparr>"

definition set_height :: "nat \<Rightarrow> canvas \<Rightarrow> canvas" where
  "set_height h c = c\<lparr>height := h, ops := ops c @ [SetHeight h]\<rparr>"

definition canvas_size :: "canvas option \<Rightarrow> (nat \<times> nat) option" where
  "canvas_size co = (case co of None \<Rightarrow> None | Some c \<Rightarrow> Some (width c, height c))"

text \<open>The operations logged after the first \<open>n\<close>, and whether one of them resizes.\<close>

definition ops_since :: "nat \<Rightarrow> canvas option \<Rightarrow> canvas_op list" where
  "ops_since n co = (case co of None \<Rightarrow> [] | Some c \<Rightarrow> drop n (ops c))"

fun is_resize :: "canvas_op \<Rightarrow> bool" where
  "is_resize (SetWidth _) = True"
| "is_resize (SetHeight _) = True"
| "is_resize _ = False"

section \<open>Double arithmetic\<close>








section \<open>The zone editor (Zones view)\<close>

record zone =
  zone_id :: int
  zone_name :: string
  zone_coordinates :: "point list"
  zone_stay_threshold :: int
  zone_is_active :: bool

record zone_form =
  form_name :: string
  form_stay_threshold :: int
  form_is_active :: bool
  form_coordinates :: "point list"

record zones_page =
  zones :: "zone list"
  selectedZone :: "zone option"
  loading :: bool
  submitting :: bool
  videoCanvas :: "canvas option"
  videoStream :: "img option"
  videoStreamUrl :: string
  cameraStatus :: string
  videoError :: bool
  drawMode :: bool
  currentPoints :: "point list"
  showZoneDialog :: bool
  editingZone :: "zone option"
  zoneForm :: zone_form

text \<open>
  \<^verbatim>\<open>drawFrame\<close>, run on every animation frame, on the image's \<^verbatim>\<open>load\<close> event and
  by several handlers. The first argument says whether drawing the image throws;
  the exception is caught and replaced by a status message.
\<close>

definition drawFrame :: "bool \<Rightarrow> zones_page \<Rightarrow> zones_page" where
  "drawFrame throws s =
     (case videoCanvas s of
        None \<Rightarrow> s
      | Some c \<Rightarrow>
          let c1 = draw [FillRect 0 0 640 480] (set_height 480 (set_width 640 c));
              status = (\<lambda>msg. s\<lparr>videoCanvas := Some (draw [StatusMessage msg] c1)\<rparr>)
          in if cameraStatus s \<noteq> ''running'' then status ''camera not started''
             else if videoError s then status ''video stream connection failed''
             else
               (case videoStream s of
                  None \<Rightarrow> status ''video loading''
                | Some video \<Rightarrow>
                    if \<not> complete video \<or> naturalWidth video = 0 then status ''video loading''
                    else if throws then status ''video drawing failed''
                    else s\<lparr>videoCanvas :=
                           Some (draw [DrawImage 0 0 (width c1) (height c1),
                                       DrawExistingZones, DrawCurrentDrawing] c1)\<rparr>))"



text \<open>
  \<^verbatim>\<open>handleRightClick\<close>, the finishing gesture (the canvas's \<^verbatim>\<open>contextmenu\<close>
  event). Its \<^verbatim>\<open>event.preventDefault()\<close> touches no state.
\<close>

definition handleRightClick :: "zones_page \<Rightarrow> zones_page \<times> effects" where
  "handleRightClick s =
     (if \<not> drawMode s \<or> length (currentPoints s) < 3 then
        (s, no_effects\<lparr>toasts :=
              [Notice Warning ''at least 3 points are needed to finish the zone drawing'']\<rparr>)
      else
        (s\<lparr>zoneForm := (zoneForm s)\<lparr>form_coordinates := currentPoints s\<rparr>,
           showZoneDialog := True,
           drawMode := False\<rparr>, no_effects))"

definition handleVideoError :: "zones_page \<Rightarrow> zones_page \<times> effects" where
  "handleVideoError s =
     (s\<lparr>videoError := True\<rparr>,
      no_effects\<lparr>toasts :=
        [Notice Error ''video stream connection failed, check the camera status'']\<rparr>)"

definition startDrawing :: "zones_page \<Rightarrow> zones_page" where
  "startDrawing s = s\<lparr>drawMode := True, currentPoints := [], selectedZone := None\<rparr>"

definition toggleDrawMode :: "zones_page \<Rightarrow> zones_page" where
  "toggleDrawMode s =
     (let s1 = s\<lparr>drawMode := \<not> drawMode s\<rparr>
      in if \<not> drawMode s1 then s1\<lparr>currentPoints := []\<rparr> else s1)"

definition clearDrawing :: "bool \<Rightarrow> zones_page \<Rightarrow> zones_page" where
  "clearDrawing throws s = drawFrame throws (s\<lparr>currentPoints := []\<rparr>)"

definition clearCoordinates :: "bool \<Rightarrow> zones_page \<Rightarrow> zones_page" where
  "clearCoordinates throws s =
     drawFrame throws (s\<lparr>zoneForm := (zoneForm s)\<lparr>form_coordinates := []\<rparr>,
                         currentPoints := []\<rparr>)"

definition resetView :: "bool \<Rightarrow> zones_page \<Rightarrow> zones_page" where
  "resetView throws s =
     drawFrame throws (s\<lparr>selectedZone := None, drawMode := False, currentPoints := []\<rparr>)"

definition editZone :: "zone \<Rightarrow> zones_page \<Rightarrow> zones_page" where
  "editZone z s =
     s\<lparr>editingZone := Some z,
       zoneForm := \<lparr>form_name = zone_name z,
                    form_stay_threshold = zone_stay_threshold z,
                    form_is_active = zone_is_active z,
                    form_coordinates = zone_coordinates z\<rparr>,
       currentPoints := zone_coordinates z,
       showZoneDialog := True\<rparr>"

text \<open>
  \<^verbatim>\<open>fetchZones\<close>: the argument is the list the server answers, or \<open>None\<close> when the
  request fails.
\<close>

definition fetchZones :: "zone list option \<Rightarrow> zones_page \<Rightarrow> zones_page \<times> effects" where
  "fetchZones resp s =
     (let rq = [Request ''GET'' ''/api/zone'' None NoBody]
      in case resp of
           Some zs \<Rightarrow> (s\<lparr>zones := zs, loading := False\<rparr>, no_effects\<lparr>requests := rq\<rparr>)
         | None \<Rightarrow>
             (s\<lparr>loading := False\<rparr>,
              no_effects\<lparr>requests := rq,
                         toasts := [Notice Error ''fetching the danger zone list failed'']\<rparr>))"

definition resetZoneForm :: "zones_page \<Rightarrow> zones_page" where
  "resetZoneForm s =
     s\<lparr>zoneForm := \<lparr>form_name = [], form_stay_threshold = 10,
                    form_is_active = True, form_coordinates = []\<rparr>,
       currentPoints := [],
       editingZone := None\<rparr>"

text \<open>
  \<^verbatim>\<open>submitZoneForm\<close>. The arguments are what the awaited calls answer: whether
  the form's validation passes, whether the create or update request succeeds,
  and the answer to the refetch of the list.
\<close>

definition submitZoneForm ::
    "bool \<Rightarrow> bool \<Rightarrow> zone list option \<Rightarrow> zones_page \<Rightarrow> zones_page \<times> effects" where
  "submitZoneForm valid saved refetched s =
     (let failed = (\<lambda>s'. Notice Error
                      (if editingZone s' \<noteq> None then ''update failed'' else ''create failed''))
      in if \<not> valid then
           (s\<lparr>submitting := False\<rparr>, no_effects\<lparr>toasts := [failed s]\<rparr>)
         else if length (form_coordinates (zoneForm s)) < 3 then
           (s\<lparr>submitting := False\<rparr>,
            no_effects\<lparr>toasts := [Notice Error ''draw at least 3 vertices'']\<rparr>)
         else
           let zoneData = ZoneData (form_name (zoneForm s)) ''polygon''
                            (form_coordinates (zoneForm s))
                            (form_stay_threshold (zoneForm s))
                            (form_is_active (zoneForm s));
               rq = (case editingZone s of
                       Some z \<Rightarrow> Request ''PUT'' ''/api/zone/{id}'' (Some (zone_id z)) zoneData
                     | None \<Rightarrow> Request ''POST'' ''/api/zone'' None zoneData)
           in if \<not> saved then
                (s\<lparr>submitting := False\<rparr>,
                 no_effects\<lparr>requests := [rq], toasts := [failed s]\<rparr>)
              else
                let done = Notice Success
                      (if editingZone s \<noteq> None then ''danger zone updated''
                       else ''danger zone created'');
                    (s', fx) = fetchZones refetched
                                 (resetZoneForm (s\<lparr>submitting := True,
                                                    showZoneDialog := False\<rparr>))
                in (s'\<lparr>submitting := False\<rparr>,
                    fx\<lparr>requests := rq # requests fx, toasts := done # toasts fx\<rparr>))"

text \<open>The polygon a request carries, if it carries one.\<close>

fun request_points :: "request \<Rightarrow> point list option" where
  "request_points (Request _ _ _ (ZoneData _ _ ps _ _)) = Some ps"
| "request_points _ = None"

section \<open>The face recognition view\<close>

record face_recognition =
  fr_videoCanvas :: "canvas option"
  fr_videoStream :: "img option"
  fr_cameraStatus :: string
  fr_videoLoaded :: bool
  fr_detectedFaces :: "face list"

text \<open>
  \<^verbatim>\<open>drawVideoFrame\<close> of the face recognition view. The first argument says
  whether drawing the image throws; the exception is caught and logged to the
  console.
\<close>

definition fr_drawVideoFrame :: "bool \<Rightarrow> face_recognition \<Rightarrow> face_recognition" where
  "fr_drawVideoFrame throws s =
     (case fr_videoCanvas s of
        None \<Rightarrow> s
      | Some c \<Rightarrow>
          (case fr_videoStream s of
             None \<Rightarrow> s
           | Some video \<Rightarrow>
               if \<not> complete video \<or> naturalWidth video = 0 then s
               else
                 let c1 = (if width c \<noteq> naturalWidth video \<or> height c \<noteq> naturalHeight video
                           then set_height
                                  (if naturalHeight video = 0 then 480 else naturalHeight video)
                                  (set_width
                                     (if naturalWidth video = 0 then 640 else naturalWidth video) c)
                           else c);
                     c2 = draw [ClearRect 0 0 (width c1) (height c1)] c1
                 in if throws then s\<lparr>fr_videoCanvas := Some c2\<rparr>
                    else s\<lparr>fr_videoCanvas :=
                             Some (draw [DrawImage 0 0 (width c2) (height c2), DrawFaceBoxes] c2),
                           fr_videoLoaded := True\<rparr>))"

text \<open>One turn of the \<^verbatim>\<open>requestAnimationFrame\<close> loop that \<^verbatim>\<open>onMounted\<close> starts.\<close>

definition fr_frameUpdate :: "bool \<Rightarrow> face_recognition \<Rightarrow> face_recognition" where
  "fr_frameUpdate throws s =
     (if fr_cameraStatus s = ''running'' then fr_drawVideoFrame throws s else s)"

definition fr_handleVideoError :: "face_recognition \<Rightarrow> face_recognition \<times> effects" where
  "fr_handleVideoError s =
     (s\<lparr>fr_videoLoaded := False\<rparr>,
      no_effects\<lparr>toasts := [Notice Error ''video stream connection failed'']\<rparr>)"

section \<open>The WebSocket channel of a view\<close>

text \<open>
  \<^verbatim>\<open>initWebSocket\<close> of the live monitor and of the face recognition view. The
  channel's state is the variable \<^verbatim>\<open>ws\<close> (the socket constructed last), the
  sockets constructed and not yet closed, the number of sockets constructed so
  far, and the timers armed and not yet fired, each with its delay in
  milliseconds. \<^verbatim>\<open>wsConnected\<close> exists in the face recognition view only, whose
  socket also has \<^verbatim>\<open>onopen\<close> and \<^verbatim>\<open>onerror\<close> handlers.
\<close>

datatype view = LiveMonitorView | FaceRecognitionView

record ws_channel =
  ws :: "nat option"
  open_sockets :: "nat list"
  created :: nat
  pending :: "(nat \<times> callback) list"
  wsConnected :: bool

definition initWebSocket :: "ws_channel \<Rightarrow> ws_channel" where
  "initWebSocket s =
     s\<lparr>ws := Some (created s),
       open_sockets := open_sockets s @ [created s],
       created := created s + 1\<rparr>"

definition ws_onopen :: "view \<Rightarrow> ws_channel \<Rightarrow> ws_channel" where
  "ws_onopen v s = (if v = FaceRecognitionView then s\<lparr>wsConnected := True\<rparr> else s)"

definition ws_onerror :: "view \<Rightarrow> ws_channel \<Rightarrow> ws_channel" where
  "ws_onerror v s = (if v = FaceRecognitionView then s\<lparr>wsConnected := False\<rparr> else s)"

definition ws_onclose :: "view \<Rightarrow> ws_channel \<Rightarrow> ws_channel" where
  "ws_onclose v s =
     (let s1 = (if v = FaceRecognitionView then s\<lparr>wsConnected := False\<rparr> else s)
      in s1\<lparr>pending := pending s1 @ [(3000, InitWebSocket)]\<rparr>)"

text \<open>
  What the browser may deliver to the channel: a socket that is not closed
  opens, fails or closes, and the oldest armed timer fires (all delays are
  equal, so timers fire in the order they were armed). \<open>None\<close>: the event cannot
  happen in that state.
\<close>

datatype ws_event = Opened nat | Errored nat | Closed nat | TimerFired

fun ws_step :: "view \<Rightarrow> ws_event \<Rightarrow> ws_channel \<Rightarrow> ws_channel option" where
  "ws_step v (Opened k) s = (if k \<in> set (open_sockets s) then Some (ws_onopen v s) else None)"
| "ws_step v (Errored k) s = (if k \<in> set (open_sockets s) then Some (ws_onerror v s) else None)"
| "ws_step v (Closed k) s =
     (if k \<in> set (open_sockets s)
      then Some (ws_onclose v (s\<lparr>open_sockets := removeAll k (open_sockets s)\<rparr>))
      else None)"
| "ws_step v TimerFired s =
     (case pending s of
        [] \<Rightarrow> None
      | (d, cb) # ts \<Rightarrow>
          if cb = InitWebSocket then Some (initWebSocket (s\<lparr>pending := ts\<rparr>)) else None)"

fun ws_run :: "view \<Rightarrow> ws_event list \<Rightarrow> ws_channel \<Rightarrow> ws_channel option" where
  "ws_run v [] s = Some s"
| "ws_run v (e # es) s = (case ws_step v e s of None \<Rightarrow> None | Some s' \<Rightarrow> ws_run v es s')"

text \<open>The channel after \<^verbatim>\<open>onMounted\<close> called \<^verbatim>\<open>initWebSocket\<close>.\<close>

definition ws_mounted :: ws_channel where
  "ws_mounted =
     initWebSocket \<lparr>ws = None, open_sockets = [], created = 0, pending = [], wsConnected = False\<rparr>"

text \<open>\<open>n\<close> rounds of: the current socket closes, then the timer fires.\<close>

definition close_rounds :: "nat \<Rightarrow> ws_event list" where
  "close_rounds n = concat (map (\<lambda>k. [Closed k, TimerFired]) [0..<n])"

fun is_close :: "ws_event \<Rightarrow> bool" where
  "is_close (Closed _) = True"
| "is_close _ = False"

fun is_fire :: "ws_event \<Rightarrow> bool" where
  "is_fire TimerFired = True"
| "is_fire _ = False"

section \<open>The face registry (face management view)\<close>

record user =
  user_id :: int
  is_active :: bool

text \<open>
  \<^verbatim>\<open>toggleUserStatus(user)\<close>; the first argument says whether the status request
  succeeds. The row's switch is bound with \<^verbatim>\<open>v-model="row.is_active"\<close> and
  \<^verbatim>\<open>@change="toggleUserStatus(row)"\<close>: a click writes the negated flag to the row
  and then calls the handler, which is \<open>switch_change\<close>.
\<close>

definition toggleUserStatus :: "bool \<Rightarrow> user \<Rightarrow> user \<times> effects" where
  "toggleUserStatus put_ok u =
     (let rq = Request ''PUT'' ''http://localhost:8000/api/face/{id}/status'' (Some (user_id u))
                 (StatusBody (is_active u))
      in if put_ok then
           (u, no_effects\<lparr>requests := [rq],
                 toasts := [Notice Success
                              (if is_active u then ''user enabled'' else ''user disabled'')]\<rparr>)
         else
           (u\<lparr>is_active := \<not> is_active u\<rparr>,
            no_effects\<lparr>requests := [rq],
                       toasts := [Notice Error ''status update failed'']\<rparr>))"

definition switch_flip :: "user \<Rightarrow> user" where
  "switch_flip u = u\<lparr>is_active := \<not> is_active u\<rparr>"

definition switch_change :: "bool \<Rightarrow> user \<Rightarrow> user \<times> effects" where
  "switch_change put_ok u = toggleUserStatus put_ok (switch_flip u)"

section \<open>Slide verification and the login view\<close>

record slide_verify =
  trackWidth :: rat
  thumbLeft :: rat
  isDragging :: bool
  isVerified :: bool
  startX :: rat

definition thumbWidth :: rat where
  "thumbWidth = 40"

datatype emit = VerifySuccess | VerifyFail

definition startSlide :: "rat \<Rightarrow> slide_verify \<Rightarrow> slide_verify" where
  "startSlide x s = (if isVerified s then s else s\<lparr>isDragging := True, startX := x\<rparr>)"

definition onSlide :: "rat \<Rightarrow> slide_verify \<Rightarrow> slide_verify" where
  "onSlide currentX s =
     (if \<not> isDragging s then s
      else
        let deltaX = currentX - startX s;
            newLeft = max 0 (min deltaX (trackWidth s - thumbWidth))
        in s\<lparr>thumbLeft := newLeft\<rparr>)"

definition endSlide :: "slide_verify \<Rightarrow> slide_verify \<times> emit option" where
  "endSlide s =
     (if \<not> isDragging s then (s, None)
      else
        let threshold = trackWidth s - thumbWidth - 5
        in if thumbLeft s \<ge> threshold then
             (s\<lparr>isDragging := False, isVerified := True,
                thumbLeft := trackWidth s - thumbWidth\<rparr>, Some VerifySuccess)
           else
             (s\<lparr>isDragging := False, thumbLeft := 0\<rparr>, Some VerifyFail))"

definition reset :: "slide_verify \<Rightarrow> slide_verify" where
  "reset s = s\<lparr>isVerified := False, thumbLeft := 0\<rparr>"

record login_page =
  activeTab :: string
  loginLoading :: bool
  registerLoading :: bool
  isLoginSlideVerified :: bool
  isRegisterSlideVerified :: bool
  login_username :: string
  login_password :: string
  register_username :: string
  register_password :: string
  register_confirmPassword :: string
  loginSlide :: slide_verify
  registerSlide :: slide_verify

text \<open>
  The answer to a login or register request: the request fails (or its body is
  not JSON), or the envelope says \<^verbatim>\<open>success: false\<close> with an optional message,
  or \<^verbatim>\<open>success: true\<close>; then the flag says whether the envelope has the object
  \<^verbatim>\<open>data.token\<close>.
\<close>

datatype answer = NetworkError | Refused "string option" | Accepted bool

definition or_default :: "string option \<Rightarrow> string \<Rightarrow> string" where
  "or_default m d = (case m of None \<Rightarrow> d | Some t \<Rightarrow> if t = [] then d else t)"

text \<open>
  The slide components emit \<^verbatim>\<open>verify-success\<close> and \<^verbatim>\<open>verify-fail\<close>; the view
  binds them to \<^verbatim>\<open>handleLoginSlideSuccess\<close>, \<^verbatim>\<open>handleRegisterSlideSuccess\<close> and
  \<^verbatim>\<open>handleSlideFail\<close>. The two functions below are the release of the thumb of
  either slide, with the handler its event is bound to.
\<close>

definition login_slide_release :: "login_page \<Rightarrow> login_page \<times> effects" where
  "login_slide_release s =
     (let (sl, em) = endSlide (loginSlide s);
          s1 = s\<lparr>loginSlide := sl\<rparr>
      in case em of
           None \<Rightarrow> (s1, no_effects)
         | Some VerifySuccess \<Rightarrow> (s1\<lparr>isLoginSlideVerified := True\<rparr>, no_effects)
         | Some VerifyFail \<Rightarrow>
             (s1, no_effects\<lparr>toasts := [Notice Warning ''complete the slide verification'']\<rparr>))"

definition register_slide_release :: "login_page \<Rightarrow> login_page \<times> effects" where
  "register_slide_release s =
     (let (sl, em) = endSlide (registerSlide s);
          s1 = s\<lparr>registerSlide := sl\<rparr>
      in case em of
           None \<Rightarrow> (s1, no_effects)
         | Some VerifySuccess \<Rightarrow> (s1\<lparr>isRegisterSlideVerified := True\<rparr>, no_effects)
         | Some VerifyFail \<Rightarrow>
             (s1, no_effects\<lparr>toasts := [Notice Warning ''complete the slide verification'']\<rparr>))"

text \<open>
  \<^verbatim>\<open>handleLogin\<close> and \<^verbatim>\<open>handleRegister\<close>. The arguments are whether the form's
  validation passes and the answer to the request. On success \<^verbatim>\<open>handleLogin\<close>
  first reads \<^verbatim>\<open>result.data.token.access_token\<close>; without \<^verbatim>\<open>data.token\<close> that
  throws, and the handler's \<^verbatim>\<open>catch\<close> treats it as a network error. What it
  writes to the local storage otherwise is not modelled. \<^verbatim>\<open>handleRegister\<close>
  reads nothing of \<^verbatim>\<open>data\<close>.
\<close>

definition handleLogin :: "bool \<Rightarrow> answer \<Rightarrow> login_page \<Rightarrow> login_page \<times> effects" where
  "handleLogin valid ans s =
     (if \<not> isLoginSlideVerified s then
        (s, no_effects\<lparr>toasts := [Notice Warning ''complete the slide verification first'']\<rparr>)
      else if \<not> valid then (s, no_effects)
      else
        let rq = Request ''POST'' ''/api/auth/admin/login'' None
                   (LoginBody (login_username s) (login_password s));
            failed = (\<lambda>msg.
              (s\<lparr>loginSlide := reset (loginSlide s),
                 isLoginSlideVerified := False,
                 loginLoading := False\<rparr>,
               no_effects\<lparr>requests := [rq], toasts := [Notice Error msg]\<rparr>))
        in case ans of
             Accepted has_token \<Rightarrow>
               if has_token then
                 (s\<lparr>loginLoading := False\<rparr>,
                  no_effects\<lparr>requests := [rq],
                             toasts := [Notice Success ''login succeeded''],
                             pushes := [''/live'']\<rparr>)
               else failed ''network error, retry later''
           | Refused m \<Rightarrow> failed (or_default m ''login failed'')
           | NetworkError \<Rightarrow> failed ''network error, retry later'')"

definition handleRegister :: "bool \<Rightarrow> answer \<Rightarrow> login_page \<Rightarrow> login_page \<times> effects" where
  "handleRegister valid ans s =
     (if \<not> isRegisterSlideVerified s then
        (s, no_effects\<lparr>toasts := [Notice Warning ''complete the slide verification first'']\<rparr>)
      else if \<not> valid then (s, no_effects)
      else
        let rq = Request ''POST'' ''/api/auth/admin/register'' None
                   (LoginBody (register_username s) (register_password s));
            failed = (\<lambda>msg.
              (s\<lparr>registerSlide := reset (registerSlide s),
                 isRegisterSlideVerified := False,
                 registerLoading := False\<rparr>,
               no_effects\<lparr>requests := [rq], toasts := [Notice Error msg]\<rparr>))
        in case ans of
             Accepted has_token \<Rightarrow>
               (s\<lparr>activeTab := ''login'',
                  register_username := [], register_password := [],
                  register_confirmPassword := [],
                  registerSlide := reset (registerSlide s),
                  isRegisterSlideVerified := False,
                  registerLoading := False\<rparr>,
                no_effects\<lparr>requests := [rq],
                           toasts := [Notice Success ''registered, please log in'']\<rparr>)
           | Refused m \<Rightarrow> failed (or_default m ''registration failed'')
           | NetworkError \<Rightarrow> failed ''network error, retry later'')"

section \<open>How a failure is surfaced\<close>

text \<open>
  A failure that is surfaced as a one-shot notification and nothing else: one
  toast, which is an error toast, no timer armed (nothing is retried later) and
  no navigation.
\<close>

fun is_error :: "notice \<Rightarrow> bool" where
  "is_error (Notice l m) = (l = Error)"

definition notified_once_no_retry :: "effects \<Rightarrow> bool" where
  "notified_once_no_retry fx \<longleftrightarrow>
     (case toasts fx of [n] \<Rightarrow> is_error n | _ \<Rightarrow> False) \<and> timers fx = [] \<and> pushes fx = []"

section \<open>Example states\<close>

text \<open>Concrete states at which the theorems below are instantiated.\<close>

definition store0 :: event_store where
  "store0 = \<lparr>heap = (\<lambda>_. \<lparr>ev_id = 0, is_read = True\<rparr>)
                (0 := \<lparr>ev_id = 7, is_read = False\<rparr>,
                 1 := \<lparr>ev_id = 8, is_read = False\<rparr>,
                 2 := \<lparr>ev_id = 9, is_read = True\<rparr>),
             events = [0, 1], recentEvents = [1, 2], unreadCount = 2\<rparr>"

definition store1 :: event_store where
  "store1 = \<lparr>heap = (\<lambda>_. \<lparr>ev_id = 0, is_read = True\<rparr>)
                (0 := \<lparr>ev_id = 7, is_read = True\<rparr>),
             events = [0], recentEvents = [0], unreadCount = 2\<rparr>"


definition monitor0 :: live_monitor where
  "monitor0 = \<lparr>lm_detectedFaces = [], lm_recognizedFaces = [], lm_strangers = [],
                lm_dangerZoneViolations = [],
                lm_realtimeAlerts = map (\<lambda>i. \<lparr>ev_id = i, is_read = False\<rparr>) [1, 2, 3, 4, 5, 6, 7, 8, 9, 10],
                lm_cameraStatus = ''running'', lm_videoStreamUrl = MJPEG_API,
                lm_videoErrorRetry = 0\<rparr>"

definition alert0 :: ws_message where
  "alert0 = \<lparr>msg_type = ''realtime_alert'', data_faces = None, data_violations = None,
              data_obj = \<lparr>ev_id = 11, is_read = False\<rparr>\<rparr>"

definition canvas0 :: canvas where
  "canvas0 = \<lparr>width = 640, height = 480,
               rect = \<lparr>rect_left = 10, rect_top = 20, rect_width = 320, rect_height = 240\<rparr>,
               ops = []\<rparr>"

definition img0 :: img where
  "img0 = \<lparr>complete = True, naturalWidth = 1280, naturalHeight = 720\<rparr>"

definition triangle :: "point list" where
  "triangle = [(Num 10, Num 10), (Num 50, Num 10), (Num 50, Num 50)]"

definition editor0 :: zones_page where
  "editor0 = \<lparr>zones = [], selectedZone = None, loading = False, submitting = False,
               videoCanvas = Some canvas0, videoStream = Some img0,
               videoStreamUrl = MJPEG_API, cameraStatus = ''running'', videoError = False,
               drawMode = True, currentPoints = [(Num 10, Num 10), (Num 50, Num 10)],
               showZoneDialog = False, editingZone = None,
               zoneForm = \<lparr>form_name = ''Pool'', form_stay_threshold = 10,
                            form_is_active = True, form_coordinates = []\<rparr>\<rparr>"




definition recognition0 :: face_recognition where
  "recognition0 = \<lparr>fr_videoCanvas = Some canvas0, fr_videoStream = Some img0,
                    fr_cameraStatus = ''running'', fr_videoLoaded = False,
                    fr_detectedFaces = []\<rparr>"

definition canvas1 :: canvas where
  "canvas1 = canvas0\<lparr>width := 1280, height := 720\<rparr>"

definition recognition1 :: face_recognition where
  "recognition1 = recognition0\<lparr>fr_videoCanvas := Some canvas1\<rparr>"

definition slide0 :: slide_verify where
  "slide0 = \<lparr>trackWidth = 300, thumbLeft = 256, isDragging = True, isVerified = False,
              startX = 12\<rparr>"

definition login0 :: login_page where
  "login0 = \<lparr>activeTab = ''login'', loginLoading = False, registerLoading = False,
              isLoginSlideVerified = False, isRegisterSlideVerified = False,
              login_username = ''admin'', login_password = ''secret1'',
              register_username = [], register_password = [], register_confirmPassword = [],
              loginSlide = slide0, registerSlide = slide0\<lparr>thumbLeft := 100\<rparr>\<rparr>"

definition user0 :: user where
  "user0 = \<lparr>user_id = 3, is_active = True\<rparr>"
section \<open>Read-state lemmas\<close>

lemma set_read_other: "is_read (h r') \<Longrightarrow> is_read (set_read r h r')"
  by (simp add: set_read_def)

lemma set_read_self: "is_read (set_read r h r)"
  by (simp add: set_read_def)

lemma fold_set_read_keeps: "is_read (h r') \<Longrightarrow> is_read (fold set_read xs h r')"
  by (induction xs arbitrary: h) (simp_all add: set_read_other)

lemma fold_set_read_sets: "r \<in> set xs \<Longrightarrow> is_read (fold set_read xs h r)"
proof (induction xs arbitrary: h)
  case Nil
  then show ?case by simp
next
  case (Cons x xs)
  show ?case
  proof (cases "r = x")
    case True
    then show ?thesis by (simp add: fold_set_read_keeps set_read_self)
  next
    case False
    with Cons show ?thesis by simp
  qed
qed

lemma set_read_idem: "is_read (h r) \<Longrightarrow> set_read r h = h"
  by (simp add: set_read_def fun_eq_iff)

lemma find_event_None: "find_event h i xs = None \<longleftrightarrow> (\<forall>r\<in>set xs. ev_id (h r) \<noteq> i)"
  by (auto simp: find_event_def find_None_iff)

lemma find_event_Some: "find_event h i xs = Some r \<Longrightarrow> r \<in> set xs \<and> ev_id (h r) = i"
  by (auto simp: find_event_def find_Some_iff)


section \<open>Marking events as read\<close>

text \<open>
  Claim C6. When the request succeeds, marking one event as read decrements the
  cached unread count by exactly 1 unless it is not positive, so that a count
  that is not negative stays so (floor 0); marking all events as read sets the
  count to 0 and sets the read flag of every event object of both caches,
  leaving the two lists as they were.
\<close>

theorem mark_read_updates_unread_count:
  "(\<exists>s'. markEventAsRead True eventId s = Inr s' \<and>
         unreadCount s' = (if 0 < unreadCount s then unreadCount s - 1 else unreadCount s) \<and>
         (0 \<le> unreadCount s \<longrightarrow> unreadCount s' = max 0 (unreadCount s - 1) \<and> 0 \<le> unreadCount s')) \<and>
   (\<exists>s'. markAllAsRead True s = Inr s' \<and>
         unreadCount s' = 0 \<and>
         events s' = events s \<and> recentEvents s' = recentEvents s \<and>
         (\<forall>r \<in> set (events s') \<union> set (recentEvents s'). is_read (heap s' r)))"
proof (intro conjI)
  show "\<exists>s'. markEventAsRead True eventId s = Inr s' \<and>
         unreadCount s' = (if 0 < unreadCount s then unreadCount s - 1 else unreadCount s) \<and>
         (0 \<le> unreadCount s \<longrightarrow> unreadCount s' = max 0 (unreadCount s - 1) \<and> 0 \<le> unreadCount s')"
    by (simp add: markEventAsRead_def Let_def)
next
  let ?h1 = "fold set_read (events s) (heap s)"
  let ?h2 = "fold set_read (recentEvents s) ?h1"
  have "is_read (?h2 r)" if "r \<in> set (events s) \<union> set (recentEvents s)" for r
  proof (cases "r \<in> set (recentEvents s)")
    case True
    then show ?thesis by (rule fold_set_read_sets)
  next
    case False
    with that have "r \<in> set (events s)" by simp
    then have "is_read (?h1 r)" by (rule fold_set_read_sets)
    then show ?thesis by (rule fold_set_read_keeps)
  qed
  then show "\<exists>s'. markAllAsRead True s = Inr s' \<and>
         unreadCount s' = 0 \<and>
         events s' = events s \<and> recentEvents s' = recentEvents s \<and>
         (\<forall>r \<in> set (events s') \<union> set (recentEvents s'). is_read (heap s' r))"
    by (simp add: markAllAsRead_def Let_def)
qed

theorem mark_read_updates_unread_count_witness:
  "(\<exists>s'. markEventAsRead True 7 store0 = Inr s' \<and> unreadCount s' = 1) \<and>
   (\<exists>s'. markAllAsRead True store0 = Inr s' \<and> unreadCount s' = 0 \<and>
         is_read (heap s' 0) \<and> is_read (heap s' 1) \<and> is_read (heap s' 2))"
  using mark_read_updates_unread_count [of 7 store0]
  by (auto simp: store0_def)

text \<open>
  Claim C10. The decrement of \<^verbatim>\<open>markEventAsRead\<close> is guarded by
  \<^verbatim>\<open>unreadCount > 0\<close> alone: with a positive count a successful call decrements
  it by 1 also when no cached event has the id (then the caches are left as
  they were) and when every cached event of that id is already read (then no
  event object changes).
\<close>

theorem mark_read_decrements_regardless:
  assumes "0 < unreadCount s"
  shows "\<exists>s'. markEventAsRead True eventId s = Inr s' \<and>
           unreadCount s' = unreadCount s - 1 \<and>
           events s' = events s \<and> recentEvents s' = recentEvents s \<and>
           ((\<forall>r \<in> set (events s) \<union> set (recentEvents s). ev_id (heap s r) \<noteq> eventId)
              \<longrightarrow> heap s' = heap s) \<and>
           ((\<forall>r \<in> set (events s) \<union> set (recentEvents s).
                 ev_id (heap s r) = eventId \<longrightarrow> is_read (heap s r))
              \<longrightarrow> heap s' = heap s)"
proof -
  let ?h1 = "case find_event (heap s) eventId (events s) of
               None \<Rightarrow> heap s | Some r \<Rightarrow> set_read r (heap s)"
  let ?h2 = "case find_event ?h1 eventId (recentEvents s) of
               None \<Rightarrow> ?h1 | Some r \<Rightarrow> set_read r ?h1"
  have absent: "?h2 = heap s"
    if "\<forall>r \<in> set (events s) \<union> set (recentEvents s). ev_id (heap s r) \<noteq> eventId"
  proof -
    from that have "find_event (heap s) eventId (events s) = None"
      and "find_event (heap s) eventId (recentEvents s) = None"
      by (simp_all add: find_event_None)
    then show ?thesis by simp
  qed
  have already: "?h2 = heap s"
    if rd: "\<forall>r \<in> set (events s) \<union> set (recentEvents s).
              ev_id (heap s r) = eventId \<longrightarrow> is_read (heap s r)"
  proof -
    have h1: "?h1 = heap s"
    proof (cases "find_event (heap s) eventId (events s)")
      case None
      then show ?thesis by simp
    next
      case (Some r)
      from find_event_Some [OF Some] rd have "is_read (heap s r)" by simp
      with Some show ?thesis by (simp add: set_read_idem)
    qed
    show ?thesis
    proof (cases "find_event (heap s) eventId (recentEvents s)")
      case None
      with h1 show ?thesis by simp
    next
      case (Some r)
      from find_event_Some [OF Some] rd have "is_read (heap s r)" by simp
      with Some h1 show ?thesis by (simp add: set_read_idem)
    qed
  qed
  from assms absent already show ?thesis
    by (simp add: markEventAsRead_def Let_def)
qed

theorem mark_read_decrements_regardless_witness:
  "0 < unreadCount store1 \<and>
   (\<exists>s'. markEventAsRead True 99 store1 = Inr s' \<and> unreadCount s' = 1 \<and>
         heap s' = heap store1) \<and>
   (\<exists>s'. markEventAsRead True 7 store1 = Inr s' \<and> unreadCount s' = 1 \<and>
         heap s' = heap store1)"
proof -
  have pos: "0 < unreadCount store1" by (simp add: store1_def)
  have absent: "\<forall>r \<in> set (events store1) \<union> set (recentEvents store1).
                  ev_id (heap store1 r) \<noteq> 99"
    by (simp add: store1_def)
  have already: "\<forall>r \<in> set (events store1) \<union> set (recentEvents store1).
                   ev_id (heap store1 r) = 7 \<longrightarrow> is_read (heap store1 r)"
    by (simp add: store1_def)
  from mark_read_decrements_regardless [OF pos, of 99] absent
  have a: "\<exists>s'. markEventAsRead True 99 store1 = Inr s' \<and> unreadCount s' = 1 \<and>
                heap s' = heap store1"
    by (auto simp: store1_def)
  from mark_read_decrements_regardless [OF pos, of 7] already
  have b: "\<exists>s'. markEventAsRead True 7 store1 = Inr s' \<and> unreadCount s' = 1 \<and>
                heap s' = heap store1"
    by (auto simp: store1_def)
  from pos a b show ?thesis by blast
qed

section \<open>Realtime pushes\<close>

text \<open>
  Claim C8. After every call of \<^verbatim>\<open>addRealtimeEvent\<close> the recent-events cache
  holds at most 50 entries, the pushed event in front of the first 49 older
  ones, and the unread count grew by 1 exactly when the pushed event's read
  flag is false; on a \<^verbatim>\<open>realtime_alert\<close> or \<^verbatim>\<open>event_alert\<close> message the live
  monitor's alert list becomes the pushed alert followed by the older ones, cut
  to at most 10 entries.
\<close>

theorem realtime_lists_bounded:
  "length (recentEvents (addRealtimeEvent r s)) \<le> 50 \<and>
   recentEvents (addRealtimeEvent r s) = take 50 (r # recentEvents s) \<and>
   hd (recentEvents (addRealtimeEvent r s)) = r \<and>
   events (addRealtimeEvent r s) = r # events s \<and>
   unreadCount (addRealtimeEvent r s) =
     (if is_read (heap s r) then unreadCount s else unreadCount s + 1) \<and>
   (msg_type m = ''realtime_alert'' \<or> msg_type m = ''event_alert'' \<longrightarrow>
      length (lm_realtimeAlerts (fst (lm_onmessage m t))) \<le> 10 \<and>
      lm_realtimeAlerts (fst (lm_onmessage m t)) = take 10 (data_obj m # lm_realtimeAlerts t) \<and>
      hd (lm_realtimeAlerts (fst (lm_onmessage m t))) = data_obj m)"
proof -
  have recent: "recentEvents (addRealtimeEvent r s) = take 50 (r # recentEvents s)"
    by (simp add: addRealtimeEvent_def Let_def)
  have "take 50 (r # recentEvents s) = r # take 49 (recentEvents s)"
    by (simp add: take_Cons')
  with recent have front: "hd (recentEvents (addRealtimeEvent r s)) = r"
    and len: "length (recentEvents (addRealtimeEvent r s)) \<le> 50"
    by simp_all
  have rest: "events (addRealtimeEvent r s) = r # events s"
    "unreadCount (addRealtimeEvent r s) =
       (if is_read (heap s r) then unreadCount s else unreadCount s + 1)"
    by (simp_all add: addRealtimeEvent_def Let_def)
  have alerts: "lm_realtimeAlerts (fst (lm_onmessage m t)) = take 10 (data_obj m # lm_realtimeAlerts t)"
    if "msg_type m = ''realtime_alert'' \<or> msg_type m = ''event_alert''"
    using that by (auto simp: lm_onmessage_def Let_def)
  have "take 10 (data_obj m # lm_realtimeAlerts t) = data_obj m # take 9 (lm_realtimeAlerts t)"
    by (simp add: take_Cons')
  with alerts have "length (lm_realtimeAlerts (fst (lm_onmessage m t))) \<le> 10 \<and>
      hd (lm_realtimeAlerts (fst (lm_onmessage m t))) = data_obj m"
    if "msg_type m = ''realtime_alert'' \<or> msg_type m = ''event_alert''"
    using that by simp
  with recent front len rest alerts show ?thesis by blast
qed

theorem realtime_lists_bounded_witness:
  "map ev_id (lm_realtimeAlerts (fst (lm_onmessage alert0 monitor0))) =
     [11, 1, 2, 3, 4, 5, 6, 7, 8, 9] \<and>
   recentEvents (addRealtimeEvent 0 store0) = [0, 1, 2] \<and>
   unreadCount (addRealtimeEvent 0 store0) = 3"
proof -
  have "msg_type alert0 = ''realtime_alert'' \<or> msg_type alert0 = ''event_alert''"
    by (simp add: alert0_def)
  with realtime_lists_bounded [of 0 store0 alert0 monitor0]
  show ?thesis
    by (simp add: alert0_def monitor0_def store0_def)
qed

section \<open>Toggling a face's active flag\<close>

text \<open>
  Claim C7. A click on a row's switch flips the displayed flag at once and
  sends the flipped value; when the status request fails the handler flips the
  flag again, so that the row (which nothing else wrote meanwhile) is what it
  was before the click, and shows one error notification; when the request
  succeeds the flag stays flipped.
\<close>

theorem toggle_rolls_back_on_failure:
  "is_active (switch_flip u) = (\<not> is_active u) \<and>
   fst (switch_change False u) = u \<and>
   fst (switch_change True u) = switch_flip u \<and>
   requests (snd (switch_change ok u)) =
     [Request ''PUT'' ''http://localhost:8000/api/face/{id}/status'' (Some (user_id u)) (StatusBody (\<not> is_active u))] \<and>
   toasts (snd (switch_change False u)) = [Notice Error ''status update failed'']"
  by (simp add: switch_change_def switch_flip_def toggleUserStatus_def no_effects_def Let_def)

section \<open>Rounding to a double\<close>











section \<open>The zone editor\<close>





text \<open>
  Claim C2. The finishing gesture on a buffer of fewer than 3 points shows a
  warning and leaves the state as it is; submitting the zone form with fewer
  than 3 coordinates shows one notification and changes nothing but the
  \<^verbatim>\<open>submitting\<close> flag, which it leaves false (as it is whenever no submission
  is under way); neither issues a request. Every request of a submission that
  carries a polygon carries at least 3 points, and a valid form of at least 3
  coordinates does send them.
\<close>

theorem polygon_needs_three_points:
  "(length (currentPoints s) < 3 \<longrightarrow>
      handleRightClick s =
        (s, no_effects\<lparr>toasts :=
              [Notice Warning ''at least 3 points are needed to finish the zone drawing'']\<rparr>)) \<and>
   requests (snd (handleRightClick s)) = [] \<and>
   (length (form_coordinates (zoneForm s)) < 3 \<longrightarrow>
      (\<exists>msg. submitZoneForm valid saved refetched s =
               (s\<lparr>submitting := False\<rparr>, no_effects\<lparr>toasts := [Notice Error msg]\<rparr>)) \<and>
      requests (snd (submitZoneForm valid saved refetched s)) = [] \<and>
      (\<not> submitting s \<longrightarrow> fst (submitZoneForm valid saved refetched s) = s)) \<and>
   (\<forall>rq \<in> set (requests (snd (submitZoneForm valid saved refetched s))).
      \<forall>ps. request_points rq = Some ps \<longrightarrow> 3 \<le> length ps) \<and>
   (valid \<and> 3 \<le> length (form_coordinates (zoneForm s)) \<longrightarrow>
      (\<exists>rq rqs. requests (snd (submitZoneForm valid saved refetched s)) = rq # rqs \<and>
                request_points rq = Some (form_coordinates (zoneForm s))))"
proof (intro conjI)
  show "length (currentPoints s) < 3 \<longrightarrow>
      handleRightClick s =
        (s, no_effects\<lparr>toasts :=
              [Notice Warning ''at least 3 points are needed to finish the zone drawing'']\<rparr>)"
    by (simp add: handleRightClick_def)
next
  show "requests (snd (handleRightClick s)) = []"
    by (simp add: handleRightClick_def no_effects_def)
next
  show "length (form_coordinates (zoneForm s)) < 3 \<longrightarrow>
      (\<exists>msg. submitZoneForm valid saved refetched s =
               (s\<lparr>submitting := False\<rparr>, no_effects\<lparr>toasts := [Notice Error msg]\<rparr>)) \<and>
      requests (snd (submitZoneForm valid saved refetched s)) = [] \<and>
      (\<not> submitting s \<longrightarrow> fst (submitZoneForm valid saved refetched s) = s)"
    by (simp add: submitZoneForm_def no_effects_def Let_def)
next
  show "\<forall>rq \<in> set (requests (snd (submitZoneForm valid saved refetched s))).
      \<forall>ps. request_points rq = Some ps \<longrightarrow> 3 \<le> length ps"
    by (auto simp: submitZoneForm_def fetchZones_def no_effects_def Let_def
        split: option.splits if_splits prod.splits)
next
  show "valid \<and> 3 \<le> length (form_coordinates (zoneForm s)) \<longrightarrow>
      (\<exists>rq rqs. requests (snd (submitZoneForm valid saved refetched s)) = rq # rqs \<and>
                request_points rq = Some (form_coordinates (zoneForm s)))"
    by (auto simp: submitZoneForm_def fetchZones_def no_effects_def Let_def
        split: option.splits prod.splits)
qed

theorem polygon_needs_three_points_witness:
  "handleRightClick editor0 =
     (editor0, no_effects\<lparr>toasts :=
        [Notice Warning ''at least 3 points are needed to finish the zone drawing'']\<rparr>) \<and>
   submitZoneForm True True (Some []) editor0 =
     (editor0, no_effects\<lparr>toasts := [Notice Error ''draw at least 3 vertices'']\<rparr>) \<and>
   requests (snd (submitZoneForm True False None
       (editor0\<lparr>zoneForm := (zoneForm editor0)\<lparr>form_coordinates := triangle\<rparr>\<rparr>))) =
     [Request ''POST'' ''/api/zone'' None (ZoneData ''Pool'' ''polygon'' triangle 10 True)]"
  using polygon_needs_three_points [of editor0 True True "Some []"]
    polygon_needs_three_points [of
      "editor0\<lparr>zoneForm := (zoneForm editor0)\<lparr>form_coordinates := triangle\<rparr>\<rparr>" True False None]
  by (simp add: editor0_def triangle_def submitZoneForm_def no_effects_def Let_def)

section \<open>The size of the canvas backing store\<close>

text \<open>
  Claim C1, as the code has it. In the face recognition view a tick that finds
  the image loaded (complete, with a non-zero natural width and height) leaves
  the canvas backing store at the image's natural width and height, assigning
  the two sizes only when one of them differs from the canvas's, whatever the
  rectangle the canvas is shown at, which the tick does not touch. The zone
  editor's tick instead assigns the fixed size 640 by 480 every time, whatever
  the image.
\<close>

theorem canvas_backing_store_size:
  "(fr_videoCanvas s = Some c \<and> fr_videoStream s = Some v \<and> complete v \<and>
    naturalWidth v \<noteq> 0 \<and> naturalHeight v \<noteq> 0 \<longrightarrow>
      canvas_size (fr_videoCanvas (fr_drawVideoFrame t s)) =
        Some (naturalWidth v, naturalHeight v) \<and>
      map_option rect (fr_videoCanvas (fr_drawVideoFrame t s)) = Some (rect c) \<and>
      filter is_resize (ops_since (length (ops c)) (fr_videoCanvas (fr_drawVideoFrame t s))) =
        (if width c = naturalWidth v \<and> height c = naturalHeight v then []
         else [SetWidth (naturalWidth v), SetHeight (naturalHeight v)]) \<and>
      (fr_cameraStatus s = ''running'' \<longrightarrow> fr_frameUpdate t s = fr_drawVideoFrame t s)) \<and>
   (videoCanvas z = Some d \<longrightarrow>
      canvas_size (videoCanvas (drawFrame t z)) = Some (640, 480) \<and>
      map_option rect (videoCanvas (drawFrame t z)) = Some (rect d) \<and>
      filter is_resize (ops_since (length (ops d)) (videoCanvas (drawFrame t z))) =
        [SetWidth 640, SetHeight 480])"
proof (intro conjI impI)
  assume a: "fr_videoCanvas s = Some c \<and> fr_videoStream s = Some v \<and> complete v \<and>
    naturalWidth v \<noteq> 0 \<and> naturalHeight v \<noteq> 0"
  show "canvas_size (fr_videoCanvas (fr_drawVideoFrame t s)) =
        Some (naturalWidth v, naturalHeight v)"
    using a by (simp add: fr_drawVideoFrame_def canvas_size_def set_width_def set_height_def
        draw_def Let_def)
  show "map_option rect (fr_videoCanvas (fr_drawVideoFrame t s)) = Some (rect c)"
    using a by (simp add: fr_drawVideoFrame_def set_width_def set_height_def draw_def Let_def)
  show "filter is_resize (ops_since (length (ops c)) (fr_videoCanvas (fr_drawVideoFrame t s))) =
        (if width c = naturalWidth v \<and> height c = naturalHeight v then []
         else [SetWidth (naturalWidth v), SetHeight (naturalHeight v)])"
    using a by (simp add: fr_drawVideoFrame_def ops_since_def set_width_def set_height_def
        draw_def Let_def)
next
  assume "fr_cameraStatus s = ''running''"
  then show "fr_frameUpdate t s = fr_drawVideoFrame t s"
    by (simp add: fr_frameUpdate_def)
next
  assume d: "videoCanvas z = Some d"
  show "canvas_size (videoCanvas (drawFrame t z)) = Some (640, 480)"
    using d by (simp add: drawFrame_def canvas_size_def set_width_def set_height_def
        draw_def Let_def split: option.splits)
  show "map_option rect (videoCanvas (drawFrame t z)) = Some (rect d)"
    using d by (simp add: drawFrame_def set_width_def set_height_def draw_def Let_def
        split: option.splits)
  show "filter is_resize (ops_since (length (ops d)) (videoCanvas (drawFrame t z))) =
        [SetWidth 640, SetHeight 480]"
    using d by (simp add: drawFrame_def ops_since_def set_width_def set_height_def
        draw_def Let_def split: option.splits)
qed

theorem canvas_backing_store_size_witness:
  "canvas_size (fr_videoCanvas (fr_drawVideoFrame False recognition0)) = Some (1280, 720) \<and>
   filter is_resize (ops_since 0 (fr_videoCanvas (fr_drawVideoFrame False recognition0))) =
     [SetWidth 1280, SetHeight 720] \<and>
   filter is_resize (ops_since 0 (fr_videoCanvas (fr_drawVideoFrame False recognition1))) = [] \<and>
   canvas_size (videoCanvas (drawFrame False editor0)) = Some (640, 480)"
proof -
  have first: "fr_videoCanvas recognition0 = Some canvas0 \<and>
      fr_videoStream recognition0 = Some img0 \<and> complete img0 \<and>
      naturalWidth img0 \<noteq> 0 \<and> naturalHeight img0 \<noteq> 0"
    by (simp add: recognition0_def img0_def)
  have second: "fr_videoCanvas recognition1 = Some canvas1 \<and>
      fr_videoStream recognition1 = Some img0 \<and> complete img0 \<and>
      naturalWidth img0 \<noteq> 0 \<and> naturalHeight img0 \<noteq> 0"
    by (simp add: recognition1_def recognition0_def img0_def)
  have third: "videoCanvas editor0 = Some canvas0"
    by (simp add: editor0_def)
  from canvas_backing_store_size [of recognition0 canvas0 img0 False editor0 canvas0] first third
  have a: "canvas_size (fr_videoCanvas (fr_drawVideoFrame False recognition0)) = Some (1280, 720)"
    "filter is_resize (ops_since 0 (fr_videoCanvas (fr_drawVideoFrame False recognition0))) =
       [SetWidth 1280, SetHeight 720]"
    "canvas_size (videoCanvas (drawFrame False editor0)) = Some (640, 480)"
    by (simp_all add: img0_def canvas0_def)
  from canvas_backing_store_size [of recognition1 canvas1 img0 False editor0 canvas0] second third
  have b: "filter is_resize (ops_since 0 (fr_videoCanvas (fr_drawVideoFrame False recognition1))) = []"
    by (simp add: img0_def canvas1_def canvas0_def)
  from a b show ?thesis by simp
qed

text \<open>
  Against claim C1 as it is written: the zone editor's tick finds the image
  loaded, of natural size 1280 by 720, and leaves the backing store at 640 by
  480; it assigns both sizes although the canvas had them already.
\<close>

theorem zone_editor_canvas_fixed_counterexample:
  "videoStream editor0 = Some img0 \<and> complete img0 \<and>
   naturalWidth img0 = 1280 \<and> naturalHeight img0 = 720 \<and>
   canvas_size (videoCanvas editor0) = Some (640, 480) \<and>
   canvas_size (videoCanvas (drawFrame False editor0)) = Some (640, 480) \<and>
   canvas_size (videoCanvas (drawFrame False editor0)) \<noteq>
     Some (naturalWidth img0, naturalHeight img0) \<and>
   filter is_resize (ops_since 0 (videoCanvas (drawFrame False editor0))) =
     [SetWidth 640, SetHeight 480]"
  by (simp add: editor0_def img0_def canvas0_def drawFrame_def canvas_size_def ops_since_def
      set_width_def set_height_def draw_def Let_def)

section \<open>The reconnecting WebSocket\<close>

lemma ws_run_append:
  "ws_run v (xs @ ys) s = (case ws_run v xs s of None \<Rightarrow> None | Some s' \<Rightarrow> ws_run v ys s')"
  by (induction xs arbitrary: s) (simp_all split: option.splits)

lemma only_socket:
  "k \<in> set xs \<Longrightarrow> length xs + length ys = 1 \<Longrightarrow> xs = [k] \<and> ys = []"
  by (cases xs; cases ys) auto

lemma ws_step_balance:
  assumes "ws_step v e s = Some s'"
    and "length (open_sockets s) + length (pending s) = 1"
    and "\<forall>t \<in> set (pending s). t = (3000, InitWebSocket)"
  shows "length (open_sockets s') + length (pending s') = 1"
    and "\<forall>t \<in> set (pending s'). t = (3000, InitWebSocket)"
    and "created s' = created s + (if is_fire e then 1 else 0)"
    and "length (pending s') + (if is_fire e then 1 else 0) =
         length (pending s) + (if is_close e then 1 else 0)"
proof -
  have "length (open_sockets s') + length (pending s') = 1 \<and>
        (\<forall>t \<in> set (pending s'). t = (3000, InitWebSocket)) \<and>
        created s' = created s + (if is_fire e then 1 else 0) \<and>
        length (pending s') + (if is_fire e then 1 else 0) =
          length (pending s) + (if is_close e then 1 else 0)"
  proof (cases e)
    case (Opened k)
    with assms show ?thesis
      by (auto simp: ws_onopen_def split: if_splits)
  next
    case (Errored k)
    with assms show ?thesis
      by (auto simp: ws_onerror_def split: if_splits)
  next
    case (Closed k)
    with assms(1) have k: "k \<in> set (open_sockets s)"
      by (simp split: if_splits)
    from only_socket [OF k assms(2)] have "open_sockets s = [k]" and "pending s = []"
      by simp_all
    with Closed assms(1) show ?thesis
      by (cases "v = FaceRecognitionView") (auto simp: ws_onclose_def Let_def)
  next
    case TimerFired
    with assms(1) obtain d cb ts where p: "pending s = (d, cb) # ts" and cb: "cb = InitWebSocket"
      by (auto split: list.splits if_splits)
    with assms(2) have "ts = []" and "open_sockets s = []"
      by simp_all
    with TimerFired assms(1) p cb show ?thesis
      by (auto simp: initWebSocket_def)
  qed
  then show "length (open_sockets s') + length (pending s') = 1"
    and "\<forall>t \<in> set (pending s'). t = (3000, InitWebSocket)"
    and "created s' = created s + (if is_fire e then 1 else 0)"
    and "length (pending s') + (if is_fire e then 1 else 0) =
         length (pending s) + (if is_close e then 1 else 0)"
    by simp_all
qed

lemma ws_run_balance:
  assumes "ws_run v es s = Some s'"
    and "length (open_sockets s) + length (pending s) = 1"
    and "\<forall>t \<in> set (pending s). t = (3000, InitWebSocket)"
  shows "length (open_sockets s') + length (pending s') = 1 \<and>
         (\<forall>t \<in> set (pending s'). t = (3000, InitWebSocket)) \<and>
         created s' = created s + length (filter is_fire es) \<and>
         length (pending s') + length (filter is_fire es) =
           length (pending s) + length (filter is_close es)"
  using assms
proof (induction es arbitrary: s)
  case Nil
  then show ?case by simp
next
  case (Cons e es)
  from Cons.prems(1) obtain s1 where e: "ws_step v e s = Some s1" and es: "ws_run v es s1 = Some s'"
    by (auto split: option.splits)
  note st = ws_step_balance [OF e Cons.prems(2) Cons.prems(3)]
  from Cons.IH [OF es st(1) st(2)] st(3) st(4) show ?case
    by (auto split: if_splits)
qed

lemma ws_close_rounds:
  "ws_run v (close_rounds n) ws_mounted =
     Some \<lparr>ws = Some n, open_sockets = [n], created = n + 1, pending = [], wsConnected = False\<rparr>"
proof (induction n)
  case 0
  show ?case by (simp add: close_rounds_def ws_mounted_def initWebSocket_def)
next
  case (Suc n)
  have "close_rounds (Suc n) = close_rounds n @ [Closed n, TimerFired]"
    by (simp add: close_rounds_def)
  with Suc show ?case
    by (simp add: ws_run_append ws_onclose_def initWebSocket_def Let_def)
qed

text \<open>
  Claim C4. The close handler of either view arms exactly one timer of 3000
  milliseconds for \<^verbatim>\<open>initWebSocket\<close>, whatever happened before. Over every run
  of socket and timer events from the mounted view, as many timers were armed as
  sockets closed, every armed timer has that same delay, a socket is
  constructed only by a timer that fires, and at every moment either one socket
  is open and no timer armed or no socket is open and one timer armed: sockets
  do not pile up. For every \<open>n\<close>, after \<open>n\<close> closes the \<open>n\<close>-th reconnect still
  happens and opens the one socket: there is no cap.
\<close>

theorem reconnect_once_per_close:
  "pending (ws_onclose v s) = pending s @ [(3000, InitWebSocket)] \<and>
   (ws_run v es ws_mounted = Some s' \<longrightarrow>
      length (open_sockets s') + length (pending s') = 1 \<and>
      (\<forall>t \<in> set (pending s'). t = (3000, InitWebSocket)) \<and>
      created s' = 1 + length (filter is_fire es) \<and>
      length (pending s') + length (filter is_fire es) = length (filter is_close es)) \<and>
   (\<exists>s''. ws_run v (close_rounds n) ws_mounted = Some s'' \<and>
      open_sockets s'' = [n] \<and> pending s'' = [] \<and> created s'' = n + 1)"
proof (intro conjI impI)
  show "pending (ws_onclose v s) = pending s @ [(3000, InitWebSocket)]"
    by (simp add: ws_onclose_def Let_def)
next
  assume run: "ws_run v es ws_mounted = Some s'"
  have "length (open_sockets ws_mounted) + length (pending ws_mounted) = 1"
    and "\<forall>t \<in> set (pending ws_mounted). t = (3000, InitWebSocket)"
    by (simp_all add: ws_mounted_def initWebSocket_def)
  from ws_run_balance [OF run this]
  show "length (open_sockets s') + length (pending s') = 1"
    and "\<forall>t \<in> set (pending s'). t = (3000, InitWebSocket)"
    and "created s' = 1 + length (filter is_fire es)"
    and "length (pending s') + length (filter is_fire es) = length (filter is_close es)"
    by (simp_all add: ws_mounted_def initWebSocket_def)
next
  show "\<exists>s''. ws_run v (close_rounds n) ws_mounted = Some s'' \<and>
      open_sockets s'' = [n] \<and> pending s'' = [] \<and> created s'' = n + 1"
    by (simp add: ws_close_rounds)
qed

theorem reconnect_once_per_close_witness:
  "ws_run FaceRecognitionView [Opened 0, Closed 0, TimerFired, Errored 1, Closed 1] ws_mounted =
     Some \<lparr>ws = Some 1, open_sockets = [], created = 2, pending = [(3000, InitWebSocket)],
           wsConnected = False\<rparr> \<and>
   ws_run LiveMonitorView (close_rounds 2) ws_mounted =
     Some \<lparr>ws = Some 2, open_sockets = [2], created = 3, pending = [], wsConnected = False\<rparr>"
proof -
  let ?es = "[Opened 0, Closed 0, TimerFired, Errored 1, Closed 1]"
  let ?end = "\<lparr>ws = Some 1, open_sockets = [], created = 2, pending = [(3000, InitWebSocket)],
               wsConnected = False\<rparr>"
  have run: "ws_run FaceRecognitionView ?es ws_mounted = Some ?end"
    by (simp add: ws_mounted_def initWebSocket_def ws_onopen_def ws_onerror_def ws_onclose_def
        Let_def)
  from reconnect_once_per_close [of FaceRecognitionView ws_mounted ?es ?end 2] run
  have "length (open_sockets ?end) + length (pending ?end) = 1" by blast
  moreover
  from reconnect_once_per_close [of LiveMonitorView ws_mounted "[]" ws_mounted 2]
  obtain s'' where "ws_run LiveMonitorView (close_rounds 2) ws_mounted = Some s''"
    and "open_sockets s'' = [2]" and "pending s'' = []" and "created s'' = 2 + 1"
    by blast
  moreover have "ws_run LiveMonitorView (close_rounds 2) ws_mounted =
     Some \<lparr>ws = Some 2, open_sockets = [2], created = 3, pending = [], wsConnected = False\<rparr>"
    by (simp add: ws_close_rounds)
  ultimately show ?thesis using run by simp
qed

section \<open>Slide verification guards login and registration\<close>

text \<open>
  Claim C9. \<^verbatim>\<open>handleLogin\<close> and \<^verbatim>\<open>handleRegister\<close> issue no request while the
  view's flag of the respective slide is false, and do issue one when it is
  true and the form is valid. Releasing a dragged thumb at an offset of at least
  track width - thumb width - 5 verifies the slide, snaps the thumb to
  track width - thumb width and emits \<^verbatim>\<open>verify-success\<close>; releasing it at any
  smaller offset resets the thumb to 0, emits \<^verbatim>\<open>verify-fail\<close> and verifies
  nothing. The view's flag, when false, becomes true by a release exactly in
  the first case.
\<close>

theorem slide_verification_gates_requests:
  "(\<not> isLoginSlideVerified s \<longrightarrow> requests (snd (handleLogin valid ans s)) = []) \<and>
   (\<not> isRegisterSlideVerified s \<longrightarrow> requests (snd (handleRegister valid ans s)) = []) \<and>
   (isLoginSlideVerified s \<and> valid \<longrightarrow> length (requests (snd (handleLogin valid ans s))) = 1) \<and>
   (isRegisterSlideVerified s \<and> valid \<longrightarrow>
      length (requests (snd (handleRegister valid ans s))) = 1) \<and>
   (isDragging sl \<longrightarrow>
      endSlide sl =
        (if trackWidth sl - thumbWidth - 5 \<le> thumbLeft sl
         then (sl\<lparr>isDragging := False, isVerified := True,
                  thumbLeft := trackWidth sl - thumbWidth\<rparr>, Some VerifySuccess)
         else (sl\<lparr>isDragging := False, thumbLeft := 0\<rparr>, Some VerifyFail))) \<and>
   (\<not> isLoginSlideVerified s \<longrightarrow>
      isLoginSlideVerified (fst (login_slide_release s)) =
        (isDragging (loginSlide s) \<and>
         trackWidth (loginSlide s) - thumbWidth - 5 \<le> thumbLeft (loginSlide s))) \<and>
   (\<not> isRegisterSlideVerified s \<longrightarrow>
      isRegisterSlideVerified (fst (register_slide_release s)) =
        (isDragging (registerSlide s) \<and>
         trackWidth (registerSlide s) - thumbWidth - 5 \<le> thumbLeft (registerSlide s)))"
proof (intro conjI impI)
  assume "\<not> isLoginSlideVerified s"
  then show "requests (snd (handleLogin valid ans s)) = []"
    by (simp add: handleLogin_def no_effects_def)
next
  assume "\<not> isRegisterSlideVerified s"
  then show "requests (snd (handleRegister valid ans s)) = []"
    by (simp add: handleRegister_def no_effects_def)
next
  assume "isLoginSlideVerified s \<and> valid"
  then show "length (requests (snd (handleLogin valid ans s))) = 1"
    by (cases ans) (simp_all add: handleLogin_def no_effects_def Let_def)
next
  assume "isRegisterSlideVerified s \<and> valid"
  then show "length (requests (snd (handleRegister valid ans s))) = 1"
    by (cases ans) (simp_all add: handleRegister_def no_effects_def Let_def)
next
  assume "isDragging sl"
  then show "endSlide sl =
        (if trackWidth sl - thumbWidth - 5 \<le> thumbLeft sl
         then (sl\<lparr>isDragging := False, isVerified := True,
                  thumbLeft := trackWidth sl - thumbWidth\<rparr>, Some VerifySuccess)
         else (sl\<lparr>isDragging := False, thumbLeft := 0\<rparr>, Some VerifyFail))"
    by (simp add: endSlide_def Let_def)
next
  assume "\<not> isLoginSlideVerified s"
  then show "isLoginSlideVerified (fst (login_slide_release s)) =
        (isDragging (loginSlide s) \<and>
         trackWidth (loginSlide s) - thumbWidth - 5 \<le> thumbLeft (loginSlide s))"
    by (simp add: login_slide_release_def endSlide_def Let_def)
next
  assume "\<not> isRegisterSlideVerified s"
  then show "isRegisterSlideVerified (fst (register_slide_release s)) =
        (isDragging (registerSlide s) \<and>
         trackWidth (registerSlide s) - thumbWidth - 5 \<le> thumbLeft (registerSlide s))"
    by (simp add: register_slide_release_def endSlide_def Let_def)
qed

theorem slide_verification_gates_requests_witness:
  "requests (snd (handleLogin True (Accepted True) login0)) = [] \<and>
   fst (endSlide slide0) = slide0\<lparr>isDragging := False, isVerified := True, thumbLeft := 260\<rparr> \<and>
   isLoginSlideVerified (fst (login_slide_release login0)) \<and>
   \<not> isRegisterSlideVerified (fst (register_slide_release login0)) \<and>
   thumbLeft (registerSlide (fst (register_slide_release login0))) = 0 \<and>
   requests (snd (handleLogin True (Accepted True) (fst (login_slide_release login0)))) =
     [Request ''POST'' ''/api/auth/admin/login'' None (LoginBody ''admin'' ''secret1'')]"
proof -
  let ?s1 = "fst (login_slide_release login0)"
  have pre: "\<not> isLoginSlideVerified login0" "\<not> isRegisterSlideVerified login0"
    "isDragging slide0"
    by (simp_all add: login0_def slide0_def)
  note th = slide_verification_gates_requests [of login0 True "Accepted True" slide0]
  from th pre have a: "requests (snd (handleLogin True (Accepted True) login0)) = []"
    by blast
  from th pre have b: "fst (endSlide slide0) =
      slide0\<lparr>isDragging := False, isVerified := True, thumbLeft := 260\<rparr>"
    by (simp add: slide0_def thumbWidth_def)
  from th pre have c: "isLoginSlideVerified ?s1"
    by (simp add: login0_def slide0_def thumbWidth_def)
  from th pre have d: "\<not> isRegisterSlideVerified (fst (register_slide_release login0))"
    by (simp add: login0_def slide0_def thumbWidth_def)
  have e: "thumbLeft (registerSlide (fst (register_slide_release login0))) = 0"
    by (simp add: register_slide_release_def endSlide_def login0_def slide0_def thumbWidth_def
        Let_def)
  have f: "requests (snd (handleLogin True (Accepted True) ?s1)) =
     [Request ''POST'' ''/api/auth/admin/login'' None (LoginBody ''admin'' ''secret1'')]"
    by (simp add: handleLogin_def login_slide_release_def endSlide_def login0_def slide0_def
        thumbWidth_def no_effects_def Let_def)
  from a b c d e f show ?thesis by simp
qed

section \<open>Failures, notifications and retries\<close>

text \<open>
  Claim C5, as the code has it. A failed load of the video stream in the zone
  editor and in the face recognition view, a failed zone submission, a failed
  status toggle and a login or registration request that fails, is refused or
  (for the login) is answered without a token each show exactly one
  notification, which is an error notification, arm no timer, navigate nowhere
  and issue no request beyond the one that failed. The store's fetch of the
  recent events fails without any notification and its \<^verbatim>\<open>markEventAsRead\<close>
  rethrows. The live monitor's handler of a failed stream load is the exception
  beside the WebSocket: while its retry counter is below 3 it shows nothing,
  increments the counter and arms one timer of 1000 milliseconds times the new
  count for \<^verbatim>\<open>refreshStream\<close>; from then on it shows one error notification and
  arms nothing.
\<close>

theorem failures_notified_retries:
  "notified_once_no_retry (snd (handleVideoError z)) \<and>
   requests (snd (handleVideoError z)) = [] \<and>
   notified_once_no_retry (snd (fr_handleVideoError f)) \<and>
   requests (snd (fr_handleVideoError f)) = [] \<and>
   lm_handleVideoError m =
     (if lm_videoErrorRetry m < 3
      then (m\<lparr>lm_videoErrorRetry := lm_videoErrorRetry m + 1\<rparr>,
            no_effects\<lparr>timers := [(1000 * (lm_videoErrorRetry m + 1), RefreshStream)]\<rparr>)
      else (m, no_effects\<lparr>toasts :=
                 [Notice Error ''video stream connection failed, retry later'']\<rparr>)) \<and>
   (valid \<and> 3 \<le> length (form_coordinates (zoneForm z)) \<longrightarrow>
      notified_once_no_retry (snd (submitZoneForm valid False refetched z)) \<and>
      length (requests (snd (submitZoneForm valid False refetched z))) = 1) \<and>
   notified_once_no_retry (snd (switch_change False u)) \<and>
   length (requests (snd (switch_change False u))) = 1 \<and>
   (isLoginSlideVerified l \<and> valid \<and> ans \<noteq> Accepted True \<longrightarrow>
      notified_once_no_retry (snd (handleLogin valid ans l)) \<and>
      length (requests (snd (handleLogin valid ans l))) = 1) \<and>
   (isRegisterSlideVerified l \<and> valid \<and> ans \<noteq> Accepted True \<and> ans \<noteq> Accepted False \<longrightarrow>
      notified_once_no_retry (snd (handleRegister valid ans l)) \<and>
      length (requests (snd (handleRegister valid ans l))) = 1) \<and>
   fetchRecentEvents None st =
     (st, no_effects\<lparr>requests :=
            [Request ''GET'' ''http://localhost:8000/api/events/recent'' None NoBody]\<rparr>) \<and>
   markEventAsRead False eventId st = Inl RequestFailed"
proof (intro conjI impI)
  show "notified_once_no_retry (snd (handleVideoError z))"
    and "requests (snd (handleVideoError z)) = []"
    by (simp_all add: handleVideoError_def notified_once_no_retry_def no_effects_def)
  show "notified_once_no_retry (snd (fr_handleVideoError f))"
    and "requests (snd (fr_handleVideoError f)) = []"
    by (simp_all add: fr_handleVideoError_def notified_once_no_retry_def no_effects_def)
  show "lm_handleVideoError m =
     (if lm_videoErrorRetry m < 3
      then (m\<lparr>lm_videoErrorRetry := lm_videoErrorRetry m + 1\<rparr>,
            no_effects\<lparr>timers := [(1000 * (lm_videoErrorRetry m + 1), RefreshStream)]\<rparr>)
      else (m, no_effects\<lparr>toasts :=
                 [Notice Error ''video stream connection failed, retry later'']\<rparr>))"
    by (simp add: lm_handleVideoError_def)
  show "notified_once_no_retry (snd (switch_change False u))"
    and "length (requests (snd (switch_change False u))) = 1"
    by (simp_all add: switch_change_def toggleUserStatus_def notified_once_no_retry_def
        no_effects_def Let_def)
  show "fetchRecentEvents None st =
     (st, no_effects\<lparr>requests :=
            [Request ''GET'' ''http://localhost:8000/api/events/recent'' None NoBody]\<rparr>)"
    by (simp add: fetchRecentEvents_def Let_def)
  show "markEventAsRead False eventId st = Inl RequestFailed"
    by (simp add: markEventAsRead_def)
next
  assume "valid \<and> 3 \<le> length (form_coordinates (zoneForm z))"
  then show "notified_once_no_retry (snd (submitZoneForm valid False refetched z))"
    and "length (requests (snd (submitZoneForm valid False refetched z))) = 1"
    by (simp_all add: submitZoneForm_def notified_once_no_retry_def no_effects_def Let_def)
next
  assume "isLoginSlideVerified l \<and> valid \<and> ans \<noteq> Accepted True"
  then show "notified_once_no_retry (snd (handleLogin valid ans l))"
    and "length (requests (snd (handleLogin valid ans l))) = 1"
    by (cases ans; simp add: handleLogin_def notified_once_no_retry_def no_effects_def Let_def)+
next
  assume "isRegisterSlideVerified l \<and> valid \<and> ans \<noteq> Accepted True \<and> ans \<noteq> Accepted False"
  then show "notified_once_no_retry (snd (handleRegister valid ans l))"
    and "length (requests (snd (handleRegister valid ans l))) = 1"
    by (cases ans; simp add: handleRegister_def notified_once_no_retry_def no_effects_def Let_def)+
qed

theorem failures_notified_retries_witness:
  "snd (lm_handleVideoError monitor0) = no_effects\<lparr>timers := [(1000, RefreshStream)]\<rparr> \<and>
   snd (lm_handleVideoError (monitor0\<lparr>lm_videoErrorRetry := 3\<rparr>)) =
     no_effects\<lparr>toasts := [Notice Error ''video stream connection failed, retry later'']\<rparr> \<and>
   snd (submitZoneForm True False None
       (editor0\<lparr>zoneForm := (zoneForm editor0)\<lparr>form_coordinates := triangle\<rparr>\<rparr>)) =
     no_effects\<lparr>requests :=
         [Request ''POST'' ''/api/zone'' None (ZoneData ''Pool'' ''polygon'' triangle 10 True)],
       toasts := [Notice Error ''create failed'']\<rparr> \<and>
   toasts (snd (handleLogin True NetworkError (login0\<lparr>isLoginSlideVerified := True\<rparr>))) =
     [Notice Error ''network error, retry later''] \<and>
   toasts (snd (handleLogin True (Accepted False) (login0\<lparr>isLoginSlideVerified := True\<rparr>))) =
     [Notice Error ''network error, retry later'']"
proof -
  let ?z = "editor0\<lparr>zoneForm := (zoneForm editor0)\<lparr>form_coordinates := triangle\<rparr>\<rparr>"
  let ?l = "login0\<lparr>isLoginSlideVerified := True\<rparr>"
  note th = failures_notified_retries [of ?z recognition0 monitor0 True None user0 ?l NetworkError
      store0 7]
  note th' = failures_notified_retries [of ?z recognition0 monitor0 True None user0 ?l
      "Accepted False" store0 7]
  have pre: "True \<and> 3 \<le> length (form_coordinates (zoneForm ?z))"
    "isLoginSlideVerified ?l \<and> True \<and> NetworkError \<noteq> Accepted True"
    "isLoginSlideVerified ?l \<and> True \<and> Accepted False \<noteq> Accepted True"
    by (simp_all add: editor0_def triangle_def)
  from th have a: "snd (lm_handleVideoError monitor0) =
      no_effects\<lparr>timers := [(1000, RefreshStream)]\<rparr>"
    by (simp add: monitor0_def)
  have b: "snd (lm_handleVideoError (monitor0\<lparr>lm_videoErrorRetry := 3\<rparr>)) =
     no_effects\<lparr>toasts := [Notice Error ''video stream connection failed, retry later'']\<rparr>"
    by (simp add: lm_handleVideoError_def)
  from th pre have "notified_once_no_retry (snd (submitZoneForm True False None ?z))"
    by blast
  then have c: "snd (submitZoneForm True False None ?z) =
     no_effects\<lparr>requests :=
         [Request ''POST'' ''/api/zone'' None (ZoneData ''Pool'' ''polygon'' triangle 10 True)],
       toasts := [Notice Error ''create failed'']\<rparr>"
    by (simp add: submitZoneForm_def editor0_def triangle_def Let_def)
  from th pre have "notified_once_no_retry (snd (handleLogin True NetworkError ?l))"
    by blast
  then have d: "toasts (snd (handleLogin True NetworkError ?l)) =
     [Notice Error ''network error, retry later'']"
    by (simp add: handleLogin_def no_effects_def Let_def)
  from th' pre have "notified_once_no_retry (snd (handleLogin True (Accepted False) ?l))"
    by blast
  then have e: "toasts (snd (handleLogin True (Accepted False) ?l)) =
     [Notice Error ''network error, retry later'']"
    by (simp add: handleLogin_def no_effects_def Let_def)
  from a b c d e show ?thesis by simp
qed

text \<open>
  Against claim C5 as it is written: the first failed load of the live
  monitor's video stream shows no notification and arms a timer that retries.
\<close>

theorem live_monitor_retries_counterexample:
  "lm_handleVideoError monitor0 =
     (monitor0\<lparr>lm_videoErrorRetry := 1\<rparr>, no_effects\<lparr>timers := [(1000, RefreshStream)]\<rparr>) \<and>
   toasts (snd (lm_handleVideoError monitor0)) = [] \<and>
   \<not> notified_once_no_retry (snd (lm_handleVideoError monitor0))"
  by (simp add: lm_handleVideoError_def monitor0_def notified_once_no_retry_def no_effects_def)
end
